theory Spec2Isabelle
  imports Complex_Main "HOL-Library.Signed_Division" "HOL-Library.Log_Nat"
begin

section \<open>Time values of the Go runtime\<close>

text \<open>
  A \<^verbatim>\<open>time.Time\<close> is modelled by the instant it denotes, in nanoseconds; the
  wall clock and the monotonic clock are one clock here. A \<^verbatim>\<open>time.Duration\<close> is
  an int64 count of nanoseconds: subtraction of two instants saturates, arithmetic on
  durations wraps around. A \<^verbatim>\<open>float64\<close> is modelled by the rational number it
  denotes, and every floating-point operation rounds its exact result to the nearest
  such number.
\<close>

type_synonym time = int
type_synonym duration = int

definition minDuration :: duration where
  "minDuration = - (2 ^ 63)"

definition maxDuration :: duration where
  "maxDuration = 2 ^ 63 - 1"

definition Second :: duration where
  "Second = 1000000000"

definition wrap64 :: "int \<Rightarrow> duration" where
  "wrap64 x = (x + 2 ^ 63) mod 2 ^ 64 - 2 ^ 63"

text \<open>\<^verbatim>\<open>t.Sub(u)\<close>: the difference, or the nearest representable duration.\<close>

definition Sub :: "time \<Rightarrow> time \<Rightarrow> duration" where
  "Sub t u =
     (if t - u < minDuration then minDuration
      else if maxDuration < t - u then maxDuration
      else t - u)"

text \<open>
  Rounding to float64 (IEEE 754 binary64, round to nearest, ties to even): a number
  other than zero lies in one binade \<open>2 ^ e \<le> \<bar>x\<bar> < 2 ^ (e + 1)\<close>, where the
  representable numbers are the multiples of \<open>2 ^ (e - 52)\<close>; below \<open>2 ^ - 1022\<close> the
  spacing stays that of the lowest binade. Results beyond the largest float64 do not
  arise from the arguments used here, which are below \<open>2 ^ 64\<close>.
\<close>

definition pow2 :: "int \<Rightarrow> rat" where
  "pow2 e = (if 0 \<le> e then 2 ^ nat e else 1 / 2 ^ nat (- e))"

definition exponent :: "rat \<Rightarrow> int" where
  "exponent x = (if 1 \<le> x then bitlen \<lfloor>x\<rfloor> - 1 else - bitlen (\<lceil>1 / x\<rceil> - 1))"

definition roundEven :: "rat \<Rightarrow> int" where
  "roundEven y =
     (let f = \<lfloor>y\<rfloor>; d = y - of_int f
      in if d < 1 / 2 then f else if 1 / 2 < d then f + 1 else if even f then f else f + 1)"

definition float64 :: "rat \<Rightarrow> rat" where
  "float64 x =
     (if x = 0 then 0
      else (let e = max (exponent \<bar>x\<bar>) (- 1022); q = pow2 (e - 52)
            in sgn x * of_int (roundEven (\<bar>x\<bar> / q)) * q))"

text \<open>\<^verbatim>\<open>d.Seconds()\<close> is \<^verbatim>\<open>float64(sec) + float64(nsec)/1e9\<close> with
  \<^verbatim>\<open>sec := d / Second\<close> and \<^verbatim>\<open>nsec := d % Second\<close> (Go's \<^verbatim>\<open>/\<close> and \<^verbatim>\<open>%\<close> on
  integers truncate towards zero): two conversions, a division and an addition, each
  rounded.\<close>

definition Seconds :: "duration \<Rightarrow> rat" where
  "Seconds d =
     float64 (float64 (of_int (d sdiv Second))
              + float64 (float64 (of_int (d smod Second)) / 1000000000))"

text \<open>The conversion \<^verbatim>\<open>time.Duration(f)\<close> of a float64: the fraction is discarded
  (truncation towards zero). Outside the int64 range Go leaves the result to the
  implementation; the value amd64 produces is used.\<close>

definition trunc :: "rat \<Rightarrow> int" where
  "trunc f = (if 0 \<le> f then \<lfloor>f\<rfloor> else \<lceil>f\<rceil>)"

definition toDuration :: "rat \<Rightarrow> duration" where
  "toDuration f =
     (if minDuration \<le> trunc f \<and> trunc f \<le> maxDuration then trunc f
      else minDuration)"

section \<open>Data model\<close>

record GameSession =
  GameName :: string
  StartTime :: time
  EndTime :: time
  Duration :: rat

record UserGameData =
  Sessions :: "GameSession list"
  ActiveGames :: "string \<rightharpoonup> time"

text \<open>The mutex of the store is a flag: \<open>True\<close> while some goroutine holds it. The
  values of \<open>Users\<close> are records, not pointers: the three places that store into the
  map (get-or-create, clear, load) store a record that was just allocated or just
  written through, so a nil pointer is never stored.\<close>

record DataStore =
  Users :: "string \<rightharpoonup> UserGameData"
  mu :: bool

datatype 'b datafile = NoFile | Unreadable string | File 'b

text \<open>The process state: the global \<^verbatim>\<open>data\<close> and what is at \<^verbatim>\<open>dataFilePath\<close>.\<close>

record 'b world =
  data :: DataStore
  disk :: "'b datafile"

datatype error =
  ErrMarshaling string
| ErrWriting string
| ErrReading string
| ErrUnmarshaling string

text \<open>
  What the program takes from outside, as parameters of one handler run:
  \<^item> \<open>Now n\<close> is the value of the \<open>n\<close>-th call of \<^verbatim>\<open>time.Now()\<close> in the run;
  \<^item> \<open>Marshal\<close> and \<open>Unmarshal\<close> are \<^verbatim>\<open>json.MarshalIndent\<close> and
    \<^verbatim>\<open>json.Unmarshal\<close> at the type \<^verbatim>\<open>map[string]*UserGameData\<close>, over any type
    \<open>'b\<close> of file contents; a map value \<open>None\<close> is a nil pointer (JSON \<^verbatim>\<open>null\<close>);
  \<^item> \<open>WriteFile b\<close> is \<open>None\<close> when writing \<open>b\<close> succeeds, and otherwise the
    message of the failure with what the failed write leaves at the path.
\<close>

record 'b env =
  Now :: "nat \<Rightarrow> time"
  Marshal :: "(string \<rightharpoonup> UserGameData option) \<Rightarrow> string + 'b"
  Unmarshal :: "'b \<Rightarrow> string + (string \<rightharpoonup> UserGameData option)"
  WriteFile :: "'b \<Rightarrow> (string \<times> 'b datafile) option"

text \<open>
  How a call ends: it returns a result, or its goroutine is parked for ever in
  \<^verbatim>\<open>mu.Lock()\<close>, or it panics. Each carries the process state at that point.
\<close>

datatype ('r, 's) outcome = Returned 'r 's | Blocked 's | Panicked 's

fun state_of :: "('r, 's) outcome \<Rightarrow> 's" where
  "state_of (Returned r s) = s"
| "state_of (Blocked s) = s"
| "state_of (Panicked s) = s"

fun returns :: "('r, 's) outcome \<Rightarrow> bool" where
  "returns (Returned r s) = True"
| "returns (Blocked s) = False"
| "returns (Panicked s) = False"

section \<open>The mutex\<close>

text \<open>
  \<^verbatim>\<open>sync.Mutex\<close> is not reentrant. Handler runs are taken one after another, so a
  mutex found locked is held by this goroutine or by one that is itself parked for
  ever: \<open>Lock\<close> then never returns, which is the value \<open>None\<close>.
\<close>

definition Lock :: "'b world \<Rightarrow> 'b world option" where
  "Lock w = (if mu (data w) then None else Some (w\<lparr>data := (data w)\<lparr>mu := True\<rparr>\<rparr>))"

definition Unlock :: "'b world \<Rightarrow> 'b world" where
  "Unlock w = w\<lparr>data := (data w)\<lparr>mu := False\<rparr>\<rparr>"

definition setUser :: "string \<Rightarrow> UserGameData \<Rightarrow> 'b world \<Rightarrow> 'b world" where
  "setUser userID userData w =
     w\<lparr>data := (data w)\<lparr>Users := (Users (data w))(userID \<mapsto> userData)\<rparr>\<rparr>"

definition emptyUser :: UserGameData where
  "emptyUser = \<lparr>Sessions = [], ActiveGames = Map.empty\<rparr>"

section \<open>save\<close>

text \<open>The copy that is marshalled: every user's sessions, and no active games.\<close>

definition tempUsers :: "DataStore \<Rightarrow> (string \<rightharpoonup> UserGameData option)" where
  "tempUsers ds =
     (\<lambda>userID. case Users ds userID of
                  None \<Rightarrow> None
                | Some userData \<Rightarrow>
                    Some (Some \<lparr>Sessions = Sessions userData, ActiveGames = Map.empty\<rparr>))"

definition save :: "'b env \<Rightarrow> 'b world \<Rightarrow> (error option, 'b world) outcome" where
  "save env w =
     (case Lock w of
        None \<Rightarrow> Blocked w
      | Some w1 \<Rightarrow>
          (case Marshal env (tempUsers (data w1)) of
             Inl e \<Rightarrow> Returned (Some (ErrMarshaling e)) (Unlock w1)
           | Inr dataBytes \<Rightarrow>
               (case WriteFile env dataBytes of
                  Some (e, residue) \<Rightarrow>
                    Returned (Some (ErrWriting e)) (Unlock (w1\<lparr>disk := residue\<rparr>))
                | None \<Rightarrow> Returned None (Unlock (w1\<lparr>disk := File dataBytes\<rparr>)))))"

section \<open>presenceUpdate\<close>

datatype ActivityType =
  ActivityTypeGame
| ActivityTypeStreaming
| ActivityTypeListening
| ActivityTypeWatching
| ActivityTypeCustom
| ActivityTypeCompeting

record Activity =
  Name :: string
  Type :: ActivityType

record User =
  ID :: string
  Username :: string
  Bot :: bool

record PresenceUpdate =
  User :: User
  Activities :: "Activity list"

text \<open>\<^verbatim>\<open>currentActivities\<close> is a \<^verbatim>\<open>map[string]bool\<close> that is only read with the
  zero value for a missing key: a total function, \<open>False\<close> where nothing was stored.\<close>

fun currentActivities :: "Activity list \<Rightarrow> (string \<Rightarrow> bool) \<Rightarrow> (string \<Rightarrow> bool)" where
  "currentActivities [] cur = cur"
| "currentActivities (activity # rest) cur =
     (if Type activity = ActivityTypeGame
      then currentActivities rest (cur(Name activity := True))
      else currentActivities rest cur)"

text \<open>One game has stopped: the session is built from the timer and a clock reading,
  appended, and the timer deleted.\<close>

definition stopGame :: "'b env \<Rightarrow> nat \<Rightarrow> string \<Rightarrow> time \<Rightarrow> UserGameData \<Rightarrow> UserGameData" where
  "stopGame env n gameName startTime userData =
     (let endTime = Now env n;
          duration = Seconds (Sub endTime startTime);
          session = \<lparr>GameName = gameName, StartTime = startTime,
                     EndTime = endTime, Duration = duration\<rparr>
      in userData\<lparr>Sessions := Sessions userData @ [session],
                   ActiveGames := (ActiveGames userData)(gameName := None)\<rparr>)"

text \<open>
  The loop over \<^verbatim>\<open>userData.ActiveGames\<close>. Go visits the keys of a map in an order of
  its choosing: the order is the parameter \<open>keys\<close>, and a key that is no longer in the
  map when it is reached is skipped. \<open>n\<close> counts the clock readings made so far. The
  error \<^verbatim>\<open>save\<close> returns is dropped, as in the source.
\<close>

fun stopGames ::
  "'b env \<Rightarrow> string \<Rightarrow> (string \<Rightarrow> bool) \<Rightarrow> string list \<Rightarrow> nat \<Rightarrow> UserGameData \<Rightarrow> 'b world
     \<Rightarrow> (nat \<times> UserGameData, 'b world) outcome" where
  "stopGames env userID cur [] n userData w = Returned (n, userData) w"
| "stopGames env userID cur (gameName # keys) n userData w =
     (case ActiveGames userData gameName of
        None \<Rightarrow> stopGames env userID cur keys n userData w
      | Some startTime \<Rightarrow>
          if \<not> cur gameName then
            (let userData' = stopGame env n gameName startTime userData
             in case save env (setUser userID userData' w) of
                  Returned err w' \<Rightarrow> stopGames env userID cur keys (Suc n) userData' w'
                | Blocked w' \<Rightarrow> Blocked w'
                | Panicked w' \<Rightarrow> Panicked w')
          else stopGames env userID cur keys n userData w)"

fun startGames ::
  "'b env \<Rightarrow> Activity list \<Rightarrow> nat \<Rightarrow> UserGameData \<Rightarrow> nat \<times> UserGameData" where
  "startGames env [] n userData = (n, userData)"
| "startGames env (activity # rest) n userData =
     (if Type activity = ActivityTypeGame then
        (case ActiveGames userData (Name activity) of
           None \<Rightarrow>
             startGames env rest (Suc n)
               (userData\<lparr>ActiveGames := (ActiveGames userData)(Name activity \<mapsto> Now env n)\<rparr>)
         | Some startTime \<Rightarrow> startGames env rest n userData)
      else startGames env rest n userData)"

definition presenceUpdate ::
  "'b env \<Rightarrow> string list \<Rightarrow> PresenceUpdate \<Rightarrow> 'b world \<Rightarrow> (unit, 'b world) outcome" where
  "presenceUpdate env keys p w =
     (if Bot (User p) then Returned () w
      else
        (case Lock w of
           None \<Rightarrow> Blocked w
         | Some w1 \<Rightarrow>
             (let userID = ID (User p);
                  (userData, w2) =
                     (case Users (data w1) userID of
                        Some userData \<Rightarrow> (userData, w1)
                      | None \<Rightarrow> (emptyUser, setUser userID emptyUser w1));
                  cur = currentActivities (Activities p) (\<lambda>gameName. False)
              in case stopGames env userID cur keys 0 userData w2 of
                   Blocked w3 \<Rightarrow> Blocked w3
                 | Panicked w3 \<Rightarrow> Panicked w3
                 | Returned (n, userData3) w3 \<Rightarrow>
                     Returned ()
                       (Unlock (setUser userID (snd (startGames env (Activities p) n userData3)) w3)))))"

section \<open>messageCreate\<close>

record MessageCreate =
  Author :: User
  Content :: string
  ChannelID :: string

text \<open>
  What is sent to the channel, before it is formatted as text:
  \<^item> \<open>NotTrackedYet\<close>: "I haven't tracked any games for you yet!";
  \<^item> \<open>PlayTimes\<close>: "Here are your tracked game play times", with the map
    \<^verbatim>\<open>gamePlayTimes\<close> the lines are printed from;
  \<^item> \<open>DataCleared\<close>: "your game tracking data has been cleared!";
  \<^item> \<open>NothingToClear\<close>: "you don't have any game data to clear!".
\<close>

datatype reply =
  NotTrackedYet
| PlayTimes "string \<rightharpoonup> duration"
| DataCleared
| NothingToClear

text \<open>\<^verbatim>\<open>gamePlayTimes[name] += d\<close>: a missing key reads as zero, the sum wraps.\<close>

definition addTo :: "(string \<rightharpoonup> duration) \<Rightarrow> string \<Rightarrow> duration \<Rightarrow> (string \<rightharpoonup> duration)" where
  "addTo gamePlayTimes name d =
     gamePlayTimes(name \<mapsto> wrap64 ((case gamePlayTimes name of None \<Rightarrow> 0 | Some t \<Rightarrow> t) + d))"

fun sumSessions :: "GameSession list \<Rightarrow> (string \<rightharpoonup> duration) \<Rightarrow> (string \<rightharpoonup> duration)" where
  "sumSessions [] gamePlayTimes = gamePlayTimes"
| "sumSessions (session # rest) gamePlayTimes =
     sumSessions rest
       (addTo gamePlayTimes (GameName session)
          (wrap64 (toDuration (Duration session) * Second)))"

text \<open>The loop over the active games, in the order \<open>keys\<close>; \<^verbatim>\<open>time.Since(t)\<close> is
  \<^verbatim>\<open>time.Now().Sub(t)\<close>.\<close>

fun addActive ::
  "'b env \<Rightarrow> (string \<rightharpoonup> time) \<Rightarrow> string list \<Rightarrow> nat \<Rightarrow> (string \<rightharpoonup> duration)
     \<Rightarrow> (string \<rightharpoonup> duration)" where
  "addActive env active [] n gamePlayTimes = gamePlayTimes"
| "addActive env active (gameName # keys) n gamePlayTimes =
     (case active gameName of
        None \<Rightarrow> addActive env active keys n gamePlayTimes
      | Some startTime \<Rightarrow>
          addActive env active keys (Suc n)
            (addTo gamePlayTimes gameName (Sub (Now env n) startTime)))"

text \<open>\<open>selfID\<close> is \<^verbatim>\<open>s.State.User.ID\<close>, the bot's own user. The result is the message
  sent, if any.\<close>

definition messageCreate ::
  "'b env \<Rightarrow> string list \<Rightarrow> string \<Rightarrow> MessageCreate \<Rightarrow> 'b world
     \<Rightarrow> (reply option, 'b world) outcome" where
  "messageCreate env keys selfID m w =
     (if ID (Author m) = selfID then Returned None w
      else if Content m = ''!mygames'' then
        (case Lock w of
           None \<Rightarrow> Blocked w
         | Some w1 \<Rightarrow>
             (case Users (data w1) (ID (Author m)) of
                None \<Rightarrow> Returned (Some NotTrackedYet) (Unlock w1)
              | Some userData \<Rightarrow>
                  if length (Sessions userData) = 0
                  then Returned (Some NotTrackedYet) (Unlock w1)
                  else
                    Returned
                      (Some (PlayTimes
                         (addActive env (ActiveGames userData) keys 0
                            (sumSessions (Sessions userData) Map.empty))))
                      (Unlock w1)))
      else if Content m = ''!cleargames'' then
        (case Lock w of
           None \<Rightarrow> Blocked w
         | Some w1 \<Rightarrow>
             (case Users (data w1) (ID (Author m)) of
                Some userData \<Rightarrow>
                  (case save env (setUser (ID (Author m)) emptyUser w1) of
                     Returned err w2 \<Rightarrow> Returned (Some DataCleared) (Unlock w2)
                   | Blocked w2 \<Rightarrow> Blocked w2
                   | Panicked w2 \<Rightarrow> Panicked w2)
              | None \<Rightarrow> Returned (Some NothingToClear) (Unlock w1)))
      else Returned None w)"

section \<open>load\<close>

text \<open>
  The loop over the unmarshalled map, in the order \<open>keys\<close>. A nil entry makes
  \<^verbatim>\<open>userData.ActiveGames = ...\<close> panic, before anything is stored for that key.
\<close>

fun mergeUsers ::
  "(string \<rightharpoonup> UserGameData option) \<Rightarrow> string list \<Rightarrow> 'b world \<Rightarrow> (unit, 'b world) outcome" where
  "mergeUsers temp [] w = Returned () w"
| "mergeUsers temp (userID # keys) w =
     (case temp userID of
        None \<Rightarrow> mergeUsers temp keys w
      | Some None \<Rightarrow> Panicked w
      | Some (Some userData) \<Rightarrow>
          mergeUsers temp keys (setUser userID (userData\<lparr>ActiveGames := Map.empty\<rparr>) w))"

definition load :: "'b env \<Rightarrow> string list \<Rightarrow> 'b world \<Rightarrow> (error option, 'b world) outcome" where
  "load env keys w =
     (case Lock w of
        None \<Rightarrow> Blocked w
      | Some w1 \<Rightarrow>
          (case disk w1 of
             NoFile \<Rightarrow> Returned None (Unlock w1)
           | Unreadable e \<Rightarrow> Returned (Some (ErrReading e)) (Unlock w1)
           | File dataBytes \<Rightarrow>
               (case Unmarshal env dataBytes of
                  Inl e \<Rightarrow> Returned (Some (ErrUnmarshaling e)) (Unlock w1)
                | Inr temp \<Rightarrow>
                    (case mergeUsers temp keys w1 of
                       Returned u w2 \<Rightarrow> Returned None (Unlock w2)
                     | Blocked w2 \<Rightarrow> Blocked w2
                     | Panicked w2 \<Rightarrow> Panicked (Unlock w2)))))"

text \<open>The store \<^verbatim>\<open>init\<close> creates before it calls \<^verbatim>\<open>load\<close>.\<close>

definition initData :: DataStore where
  "initData = \<lparr>Users = Map.empty, mu = False\<rparr>"

section \<open>What the statements observe\<close>

text \<open>A user's sessions and open timers in a process state; a user without a record
  has none of either.\<close>

definition sessionsOf :: "'b world \<Rightarrow> string \<Rightarrow> GameSession list" where
  "sessionsOf w userID =
     (case Users (data w) userID of None \<Rightarrow> [] | Some userData \<Rightarrow> Sessions userData)"

definition activeOf :: "'b world \<Rightarrow> string \<Rightarrow> (string \<rightharpoonup> time)" where
  "activeOf w userID =
     (case Users (data w) userID of
        None \<Rightarrow> Map.empty
      | Some userData \<Rightarrow> ActiveGames userData)"

text \<open>The names of the game-typed activities of a presence update.\<close>

definition snapshot :: "PresenceUpdate \<Rightarrow> string set" where
  "snapshot p =
     set (map Name (filter (\<lambda>activity. Type activity = ActivityTypeGame) (Activities p)))"

section \<open>Concrete runs\<close>

text \<open>An environment whose clock reads \<open>t\<close>, whose file contents are the marshalled map
  itself, and whose writes succeed; and one whose decoder rejects every file.\<close>

definition exEnv :: "time \<Rightarrow> (string \<rightharpoonup> UserGameData option) env" where
  "exEnv t = \<lparr>Now = (\<lambda>n. t), Marshal = Inr, Unmarshal = Inr, WriteFile = (\<lambda>b. None)\<rparr>"

definition exBadEnv :: "string env" where
  "exBadEnv =
     \<lparr>Now = (\<lambda>n. 0), Marshal = (\<lambda>m. Inl ''unsupported value''),
      Unmarshal = (\<lambda>b. Inl ''unexpected end of JSON input''), WriteFile = (\<lambda>b. None)\<rparr>"

text \<open>User \<open>u1\<close> has been playing Chess since instant 0 and has no session yet.\<close>

definition exPlaying :: "'b world" where
  "exPlaying =
     \<lparr>data = \<lparr>Users = [''u1'' \<mapsto> \<lparr>Sessions = [], ActiveGames = [''Chess'' \<mapsto> 0]\<rparr>],
              mu = False\<rparr>,
      disk = NoFile\<rparr>"

text \<open>User \<open>u1\<close> has two sessions of Chess, of a second and a half each, and has been
  playing Go since instant 20 s.\<close>

definition exChess :: GameSession where
  "exChess = \<lparr>GameName = ''Chess'', StartTime = 0, EndTime = 1500000000, Duration = 3 / 2\<rparr>"

definition exChessAgain :: GameSession where
  "exChessAgain =
     \<lparr>GameName = ''Chess'', StartTime = 10000000000, EndTime = 11500000000, Duration = 3 / 2\<rparr>"

definition exBoth :: "'b world" where
  "exBoth =
     \<lparr>data = \<lparr>Users = [''u1'' \<mapsto> \<lparr>Sessions = [exChess, exChessAgain],
                                   ActiveGames = [''Go'' \<mapsto> 20000000000]\<rparr>],
              mu = False\<rparr>,
      disk = NoFile\<rparr>"

text \<open>User \<open>u1\<close> has been playing Chess since instant 0 and Go since the end of the
  second second.\<close>

definition exTwo :: "'b world" where
  "exTwo =
     \<lparr>data = \<lparr>Users = [''u1'' \<mapsto> \<lparr>Sessions = [],
                                   ActiveGames = [''Chess'' \<mapsto> 0, ''Go'' \<mapsto> 2000000000]\<rparr>],
              mu = False\<rparr>,
      disk = NoFile\<rparr>"

definition exUser :: User where
  "exUser = \<lparr>ID = ''u1'', Username = ''ann'', Bot = False\<rparr>"

text \<open>Presence updates of \<open>u1\<close>: nothing is played; Chess is played; Go is played;
  Go and Chess are played; only music is listened to.\<close>

definition exOffline :: PresenceUpdate where
  "exOffline = \<lparr>User = exUser, Activities = []\<rparr>"

definition exInChess :: PresenceUpdate where
  "exInChess =
     \<lparr>User = exUser, Activities = [\<lparr>Name = ''Chess'', Type = ActivityTypeGame\<rparr>]\<rparr>"

definition exInGo :: PresenceUpdate where
  "exInGo =
     \<lparr>User = exUser, Activities = [\<lparr>Name = ''Go'', Type = ActivityTypeGame\<rparr>]\<rparr>"

definition exInGoChess :: PresenceUpdate where
  "exInGoChess =
     \<lparr>User = exUser,
      Activities = [\<lparr>Name = ''Go'', Type = ActivityTypeGame\<rparr>,
                    \<lparr>Name = ''Chess'', Type = ActivityTypeGame\<rparr>]\<rparr>"


definition exMyGames :: MessageCreate where
  "exMyGames = \<lparr>Author = exUser, Content = ''!mygames'', ChannelID = ''c1''\<rparr>"

definition exClearGames :: MessageCreate where
  "exClearGames = \<lparr>Author = exUser, Content = ''!cleargames'', ChannelID = ''c1''\<rparr>"


definition exBothCorrupt :: "string world" where
  "exBothCorrupt = exBoth\<lparr>disk := File ''not json''\<rparr>"

text \<open>A file in which user \<open>u0\<close> has an empty list of sessions and user \<open>u1\<close> is
  \<^verbatim>\<open>null\<close>, with what \<^verbatim>\<open>json.Unmarshal\<close> makes of it: a record for \<open>u0\<close> and a nil
  pointer for \<open>u1\<close>, and no error.\<close>

definition exNullFile :: string where
  "exNullFile = ''{\"u0\": {\"sessions\": []}, \"u1\": null}''"

definition exNullEnv :: "string env" where
  "exNullEnv =
     \<lparr>Now = (\<lambda>n. 0), Marshal = (\<lambda>m. Inl ''unsupported value''),
      Unmarshal = (\<lambda>b. Inr [''u0'' \<mapsto> Some \<lparr>Sessions = [], ActiveGames = Map.empty\<rparr>,
                             ''u1'' \<mapsto> None]),
      WriteFile = (\<lambda>b. None)\<rparr>"

section \<open>Facts about the parts\<close>

lemma setUser_simps [simp]:
  "Users (data (setUser u ud w)) = (Users (data w))(u \<mapsto> ud)"
  "mu (data (setUser u ud w)) = mu (data w)"
  "disk (setUser u ud w) = disk w"
  by (simp_all add: setUser_def)

lemma Unlock_simps [simp]:
  "Users (data (Unlock w)) = Users (data w)"
  "mu (data (Unlock w)) = False"
  "disk (Unlock w) = disk w"
  by (simp_all add: Unlock_def)

lemma Lock_free: "\<not> mu (data w) \<Longrightarrow> Lock w = Some (w\<lparr>data := (data w)\<lparr>mu := True\<rparr>\<rparr>)"
  by (simp add: Lock_def)

lemma Lock_held: "mu (data w) \<Longrightarrow> Lock w = None"
  by (simp add: Lock_def)

lemma Unlock_Lock: "\<not> mu (data w) \<Longrightarrow> Unlock (w\<lparr>data := (data w)\<lparr>mu := True\<rparr>\<rparr>) = w"
  by (simp add: Unlock_def)

text \<open>A call of \<open>save\<close> made while the mutex is held never returns.\<close>

lemma save_locked: "mu (data w) \<Longrightarrow> save env w = Blocked w"
  by (simp add: save_def Lock_def)

lemma find_SomeD: "List.find P xs = Some x \<Longrightarrow> P x \<and> x \<in> set xs"
  by (auto simp: find_Some_iff)

lemma stopGame_simps [simp]:
  "Sessions (stopGame env n g st ud) =
     Sessions ud @ [\<lparr>GameName = g, StartTime = st, EndTime = Now env n,
                     Duration = Seconds (Sub (Now env n) st)\<rparr>]"
  "ActiveGames (stopGame env n g st ud) = (ActiveGames ud)(g := None)"
  by (simp_all add: stopGame_def Let_def)

text \<open>Under the held mutex the closing loop ends at the first stopped game it meets,
  inside \<open>save\<close>; with no stopped game it changes nothing.\<close>

lemma stopGames_locked:
  "mu (data w) \<Longrightarrow>
   stopGames env uid cur keys n ud w =
     (case List.find (\<lambda>g. ActiveGames ud g \<noteq> None \<and> \<not> cur g) keys of
        None \<Rightarrow> Returned (n, ud) w
      | Some g \<Rightarrow> Blocked (setUser uid (stopGame env n g (the (ActiveGames ud g)) ud) w))"
  by (induction keys) (auto simp: save_locked split: option.splits)

lemma currentActivities_iff:
  "currentActivities acts cur g \<longleftrightarrow>
     cur g \<or> g \<in> set (map Name (filter (\<lambda>a. Type a = ActivityTypeGame) acts))"
  by (induction acts arbitrary: cur) auto

lemma cur_snapshot:
  "currentActivities (Activities p) (\<lambda>gameName. False) g \<longleftrightarrow> g \<in> snapshot p"
  by (simp add: currentActivities_iff snapshot_def)

lemma startGames_sessions: "Sessions (snd (startGames env acts n ud)) = Sessions ud"
  by (induction acts arbitrary: n ud) (auto split: option.splits)

lemma startGames_keeps:
  "ActiveGames ud g = Some st \<Longrightarrow> ActiveGames (snd (startGames env acts n ud)) g = Some st"
proof (induction acts arbitrary: n ud)
  case Nil
  then show ?case by simp
next
  case (Cons a acts)
  show ?case
  proof (cases "Type a = ActivityTypeGame \<and> ActiveGames ud (Name a) = None")
    case True
    with Cons.prems have "Name a \<noteq> g" by auto
    with Cons.prems
    have "ActiveGames (ud\<lparr>ActiveGames := (ActiveGames ud)(Name a \<mapsto> Now env n)\<rparr>) g = Some st"
      by simp
    from Cons.IH [OF this] True show ?thesis by simp
  next
    case False
    with Cons.IH [OF Cons.prems] show ?thesis by (auto split: option.splits)
  qed
qed

lemma startGames_covered:
  "set (map Name (filter (\<lambda>a. Type a = ActivityTypeGame) acts)) \<subseteq> dom (ActiveGames ud) \<Longrightarrow>
   startGames env acts n ud = (n, ud)"
  by (induction acts arbitrary: n ud) (auto split: option.splits if_splits)

lemma presenceUpdate_bot: "Bot (User p) \<Longrightarrow> presenceUpdate env keys p w = Returned () w"
  by (simp add: presenceUpdate_def)

lemma presenceUpdate_held:
  "mu (data w) \<Longrightarrow> \<not> Bot (User p) \<Longrightarrow> presenceUpdate env keys p w = Blocked w"
  by (simp add: presenceUpdate_def Lock_held)

text \<open>The handler on a free mutex, with both loops resolved.\<close>

lemma presenceUpdate_free:
  assumes "\<not> Bot (User p)" "\<not> mu (data w)"
  shows "presenceUpdate env keys p w =
     (case Users (data w) (ID (User p)) of
        Some ud \<Rightarrow>
          (case List.find (\<lambda>g. ActiveGames ud g \<noteq> None \<and> g \<notin> snapshot p) keys of
             None \<Rightarrow>
               Returned ()
                 (Unlock (setUser (ID (User p)) (snd (startGames env (Activities p) 0 ud)) w))
           | Some g \<Rightarrow>
               Blocked (setUser (ID (User p)) (stopGame env 0 g (the (ActiveGames ud g)) ud)
                          (w\<lparr>data := (data w)\<lparr>mu := True\<rparr>\<rparr>)))
      | None \<Rightarrow>
          Returned ()
            (Unlock (setUser (ID (User p)) (snd (startGames env (Activities p) 0 emptyUser)) w)))"
proof -
  let ?w1 = "w\<lparr>data := (data w)\<lparr>mu := True\<rparr>\<rparr>"
  have held: "mu (data ?w1)" "\<And>u ud. mu (data (setUser u ud ?w1))" by simp_all
  have un: "\<And>u ud ud'. Unlock (setUser u ud ?w1) = Unlock (setUser u ud w)"
       "\<And>u ud ud'. Unlock (setUser u ud (setUser u ud' ?w1)) = Unlock (setUser u ud w)"
    by (simp_all add: Unlock_def setUser_def)
  have fe: "\<And>P. List.find (\<lambda>g. (\<exists>y. ActiveGames emptyUser g = Some y) \<and> P g) keys = None"
    by (simp add: find_None_iff emptyUser_def)
  show ?thesis
    using assms
    by (simp add: presenceUpdate_def Lock_free stopGames_locked held cur_snapshot un fe
        split: option.splits)
qed














text \<open>Values of \<open>Seconds\<close>: 90 s and 1.5 s are float64 numbers, a tenth of a second is
  not.\<close>

lemma Seconds_values:
  "Seconds 90000000000 = 90"
  "Seconds 1500000000 = 3 / 2"
  "Seconds 100000000 = 3602879701896397 / 36028797018963968"
  "Seconds (- 5000000000) = - 5"
  by code_simp+

lemma Sub_values:
  "Sub 90000000000 0 = 90000000000"
  "Sub 1500000000 0 = 1500000000"
  "Sub 11500000000 10000000000 = 1500000000"
  "Sub 100000000 0 = 100000000"
  "Sub 25000000000 20000000000 = 5000000000"
  "Sub 15000000000 20000000000 = - 5000000000"
  by (simp_all add: Sub_def minDuration_def maxDuration_def)

lemma trunc_three_halves: "trunc (3 / 2) = 1"
proof -
  have "\<lfloor>3 / 2 :: rat\<rfloor> = 1" by (rule floor_unique) simp_all
  then show ?thesis by (simp add: trunc_def)
qed

text \<open>The two calls of \<open>save\<close> under the mutex, in general: a presence update that
  meets a stopped game, and a reset for a user that has a record, do not return.\<close>

lemma presenceUpdate_closing_blocks:
  assumes "\<not> Bot (User p)" "\<not> mu (data w)"
    and "Users (data w) (ID (User p)) = Some ud"
    and "g \<in> set keys" "ActiveGames ud g = Some st" "g \<notin> snapshot p"
  shows "\<not> returns (presenceUpdate env keys p w)"
proof -
  from assms(4-6)
  have "List.find (\<lambda>g. ActiveGames ud g \<noteq> None \<and> g \<notin> snapshot p) keys \<noteq> None"
    by (auto simp: find_None_iff)
  with assms(1-3) show ?thesis
    by (auto simp: presenceUpdate_free)
qed

lemma cleargames_existing_blocks:
  assumes "ID (Author m) \<noteq> selfID" "Content m = ''!cleargames''"
    and "Users (data w) (ID (Author m)) = Some ud"
  shows "\<not> returns (messageCreate env keys selfID m w)"
  using assms
  by (cases "mu (data w)") (simp_all add: messageCreate_def Lock_free Lock_held save_locked)








lemma mergeUsers_tempUsers:
  "\<exists>w'. mergeUsers (tempUsers ds) keys w = Returned () w'
      \<and> disk w' = disk w \<and> mu (data w') = mu (data w)
      \<and> (\<forall>u. Users (data w') u =
             (if u \<in> set keys \<and> u \<in> dom (Users ds)
              then map_option (\<lambda>ud. \<lparr>Sessions = Sessions ud, ActiveGames = Map.empty\<rparr>) (Users ds u)
              else Users (data w) u))"
proof (induction keys arbitrary: w)
  case Nil
  show ?case by simp
next
  case (Cons k keys)
  show ?case
  proof (cases "Users ds k")
    case None
    then have t: "tempUsers ds k = None" by (simp add: tempUsers_def)
    from Cons.IH [of w] obtain w' where w': "mergeUsers (tempUsers ds) keys w = Returned () w'"
      "disk w' = disk w" "mu (data w') = mu (data w)"
      "\<forall>u. Users (data w') u =
             (if u \<in> set keys \<and> u \<in> dom (Users ds)
              then map_option (\<lambda>ud. \<lparr>Sessions = Sessions ud, ActiveGames = Map.empty\<rparr>) (Users ds u)
              else Users (data w) u)" by blast
    from w' t None show ?thesis by (auto simp: domIff)
  next
    case (Some ud)
    let ?r = "\<lparr>Sessions = Sessions ud, ActiveGames = Map.empty\<rparr>"
    from Some have t: "tempUsers ds k = Some (Some ?r)" by (simp add: tempUsers_def)
    from Cons.IH [of "setUser k ?r w"] obtain w' where
      w': "mergeUsers (tempUsers ds) keys (setUser k ?r w) = Returned () w'"
      "disk w' = disk (setUser k ?r w)" "mu (data w') = mu (data (setUser k ?r w))"
      "\<forall>u. Users (data w') u =
             (if u \<in> set keys \<and> u \<in> dom (Users ds)
              then map_option (\<lambda>ud. \<lparr>Sessions = Sessions ud, ActiveGames = Map.empty\<rparr>) (Users ds u)
              else Users (data (setUser k ?r w)) u)" by blast
    from w' t Some show ?thesis by (auto simp: domIff)
  qed
qed

text \<open>\<open>load\<close> as \<^verbatim>\<open>init\<close> calls it: with no file, and with a file the decoder rejects,
  the store stays empty; the first returns no error, the second the unmarshalling
  error.\<close>

lemma load_no_file_or_rejected:
  "load env keys \<lparr>data = initData, disk = NoFile\<rparr> = Returned None \<lparr>data = initData, disk = NoFile\<rparr>
   \<and> (Unmarshal env b = Inl e \<longrightarrow>
        load env keys \<lparr>data = initData, disk = File b\<rparr>
          = Returned (Some (ErrUnmarshaling e)) \<lparr>data = initData, disk = File b\<rparr>)"
  by (simp add: load_def Lock_def Unlock_def initData_def)


section \<open>The claims\<close>

text \<open>
  C1. Claimed: every core operation runs to completion, also a presence update that
  closes an open timer and a reset for an existing user, which call \<open>save\<close> while
  they hold the mutex. In the code neither returns. User \<open>u1\<close> plays Chess since
  instant 0; at 90 s a presence update without activities arrives: the session is
  appended, the timer deleted, and the handler is parked in the \<open>Lock\<close> of \<open>save\<close>,
  with the mutex held. A reset for \<open>u1\<close> replaces the record and is parked at the same
  place.
\<close>

theorem save_under_lock_blocks:
  "presenceUpdate (exEnv 90000000000) [''Chess''] exOffline exPlaying =
     Blocked \<lparr>data = \<lparr>Users = [''u1'' \<mapsto>
                  \<lparr>Sessions = [\<lparr>GameName = ''Chess'', StartTime = 0,
                                EndTime = 90000000000, Duration = 90\<rparr>],
                   ActiveGames = Map.empty\<rparr>],
                mu = True\<rparr>,
              disk = NoFile\<rparr>
   \<and> messageCreate (exEnv 90000000000) [''Chess''] ''bot'' exClearGames exPlaying =
     Blocked \<lparr>data = \<lparr>Users = [''u1'' \<mapsto> emptyUser], mu = True\<rparr>, disk = NoFile\<rparr>"
  by (simp add: presenceUpdate_def messageCreate_def exEnv_def exPlaying_def exOffline_def
      exClearGames_def exUser_def Lock_def save_def setUser_def stopGame_def Seconds_values
      Sub_values)

text \<open>
  C2. Claimed: the report is "no data" exactly when the user has neither sessions nor
  open timers, and a user with an open timer that started before now gets that
  activity with a positive duration, also with no completed session. In the code the
  guard looks at the sessions only: \<open>u1\<close>, playing Chess since instant 0 with no
  session yet, asks at 30 s and is told that nothing has been tracked.
\<close>

theorem mygames_ignores_open_timer:
  "messageCreate (exEnv 30000000000) [''Chess''] ''bot'' exMyGames exPlaying =
     Returned (Some NotTrackedYet) exPlaying"
  by (simp add: messageCreate_def exEnv_def exPlaying_def exMyGames_def exUser_def Lock_def
      Unlock_def)

text \<open>
  C4. Claimed: a reported total is the sum of the \<open>duration\<close> fields of the sessions
  of that name plus now - start of an open timer, with no truncation of fractional
  seconds. The sessions \<open>exChess\<close> and \<open>exChessAgain\<close> are those the reconciler builds
  for a game played from instant 0 to 1.5 s and from 10 s to 11.5 s, with duration 3/2
  each. The report counts each as one second and gives two seconds (2000000000 ns)
  for Chess, where the durations sum to three; the open timer of Go, started at 20 s
  and read at 25 s, counts in full.
\<close>

theorem mygames_truncates_sessions:
  "Sessions (stopGame (exEnv 1500000000) 0 ''Chess'' 0
       \<lparr>Sessions = [], ActiveGames = [''Chess'' \<mapsto> 0]\<rparr>) = [exChess]
   \<and> Sessions (stopGame (exEnv 11500000000) 0 ''Chess'' 10000000000
       \<lparr>Sessions = [exChess], ActiveGames = [''Chess'' \<mapsto> 10000000000]\<rparr>)
       = [exChess, exChessAgain]
   \<and> messageCreate (exEnv 25000000000) [''Go''] ''bot'' exMyGames exBoth =
     Returned (Some (PlayTimes [''Chess'' \<mapsto> 2000000000, ''Go'' \<mapsto> 5000000000])) exBoth"
  by (simp add: messageCreate_def exEnv_def exBoth_def exMyGames_def exUser_def Lock_def
      Unlock_def exChess_def exChessAgain_def stopGame_def Seconds_values Sub_values addTo_def
      wrap64_def toDuration_def trunc_three_halves minDuration_def maxDuration_def Second_def)

text \<open>
  C3. Claimed: closures are processed before openings, so that a snapshot in which a
  name of the open-timer set is present again produces one closed session and one timer
  with a new start time. In the code such a name is neither closed nor opened: \<open>u1\<close>
  plays Chess since instant 0, and a presence update with Chess at 5 s leaves the
  state as it was, with no session and the timer still started at 0.
\<close>

theorem same_game_is_noop:
  "presenceUpdate (exEnv 5000000000) [''Chess''] exInChess exPlaying = Returned () exPlaying
   \<and> sessionsOf (exPlaying :: (string \<rightharpoonup> UserGameData option) world) ''u1'' = []
   \<and> activeOf (exPlaying :: (string \<rightharpoonup> UserGameData option) world) ''u1'' ''Chess'' = Some 0
   \<and> Now (exEnv 5000000000) 0 = 5000000000"
  by (simp add: presenceUpdate_def exEnv_def exPlaying_def exInChess_def exUser_def Lock_def
      Unlock_def setUser_def sessionsOf_def activeOf_def)

text \<open>
  C3, as amended: in every reconciliation, a name that is both in the user's open-timer
  set and in the snapshot is left alone: its timer keeps its start time, and no session
  of that name is appended.
\<close>

theorem continuing_game_untouched:
  assumes "activeOf w (ID (User p)) g = Some st"
    and "g \<in> snapshot p"
  shows "activeOf (state_of (presenceUpdate env keys p w)) (ID (User p)) g = Some st
     \<and> filter (\<lambda>x. GameName x = g) (sessionsOf (state_of (presenceUpdate env keys p w)) (ID (User p)))
       = filter (\<lambda>x. GameName x = g) (sessionsOf w (ID (User p)))"
proof -
  consider (bot) "Bot (User p)" | (held) "\<not> Bot (User p)" "mu (data w)"
    | (free) "\<not> Bot (User p)" "\<not> mu (data w)" by blast
  then show ?thesis
  proof cases
    case bot
    with assms(1) show ?thesis by (simp add: presenceUpdate_bot)
  next
    case held
    with assms(1) show ?thesis by (simp add: presenceUpdate_held)
  next
    case free
    from assms(1) obtain ud where ud: "Users (data w) (ID (User p)) = Some ud"
      and st: "ActiveGames ud g = Some st"
      by (auto simp: activeOf_def split: option.splits)
    show ?thesis
    proof (cases "List.find (\<lambda>g. ActiveGames ud g \<noteq> None \<and> g \<notin> snapshot p) keys")
      case None
      with free ud st show ?thesis
        by (simp add: presenceUpdate_free sessionsOf_def activeOf_def startGames_keeps
            startGames_sessions)
    next
      case (Some g')
      from find_SomeD [OF Some] assms(2) have "g' \<noteq> g" by auto
      with Some free ud st show ?thesis
        by (simp add: presenceUpdate_free sessionsOf_def activeOf_def)
    qed
  qed
qed

text \<open>The amended C3 at \<open>u1\<close> playing Go since 20 s, seen at 25 s playing Go and Chess:
  the handler returns, Chess is opened at 25 s, and Go is as it was.\<close>

theorem continuing_game_untouched_witness:
  "activeOf (exBoth :: (string \<rightharpoonup> UserGameData option) world) (ID (User exInGoChess)) ''Go''
     = Some 20000000000
   \<and> ''Go'' \<in> snapshot exInGoChess
   \<and> returns (presenceUpdate (exEnv 25000000000) [''Go''] exInGoChess exBoth)
   \<and> activeOf (state_of (presenceUpdate (exEnv 25000000000) [''Go''] exInGoChess exBoth))
        ''u1'' ''Chess'' = Some 25000000000
   \<and> activeOf (state_of (presenceUpdate (exEnv 25000000000) [''Go''] exInGoChess exBoth))
        (ID (User exInGoChess)) ''Go'' = Some 20000000000
   \<and> filter (\<lambda>x. GameName x = ''Go'')
        (sessionsOf (state_of (presenceUpdate (exEnv 25000000000) [''Go''] exInGoChess exBoth))
           (ID (User exInGoChess)))
       = filter (\<lambda>x. GameName x = ''Go'')
           (sessionsOf (exBoth :: (string \<rightharpoonup> UserGameData option) world)
              (ID (User exInGoChess)))"
proof -
  have h1: "activeOf (exBoth :: (string \<rightharpoonup> UserGameData option) world) (ID (User exInGoChess))
              ''Go'' = Some 20000000000"
    by (simp add: activeOf_def exBoth_def exInGoChess_def exUser_def)
  have h2: "''Go'' \<in> snapshot exInGoChess"
    by (simp add: snapshot_def exInGoChess_def)
  have ran: "returns (presenceUpdate (exEnv 25000000000) [''Go''] exInGoChess exBoth)"
    "activeOf (state_of (presenceUpdate (exEnv 25000000000) [''Go''] exInGoChess exBoth))
        ''u1'' ''Chess'' = Some 25000000000"
    by (simp_all add: presenceUpdate_def exEnv_def exBoth_def exInGoChess_def exUser_def Lock_def
        Unlock_def setUser_def activeOf_def)
  from continuing_game_untouched [OF h1 h2, of "exEnv 25000000000" "[''Go'']"] h1 h2 ran
  show ?thesis by blast
qed



text \<open>
  C7. Reconciling a snapshot whose set of names is the key set of the user's open
  timers appends no session and leaves the open timers as they were; on a free mutex
  the handler returns.
\<close>

theorem unchanged_snapshot_idempotent:
  assumes "\<not> mu (data w)"
    and "snapshot p = dom (activeOf w (ID (User p)))"
  shows "returns (presenceUpdate env keys p w)
     \<and> sessionsOf (state_of (presenceUpdate env keys p w)) (ID (User p)) = sessionsOf w (ID (User p))
     \<and> activeOf (state_of (presenceUpdate env keys p w)) (ID (User p)) = activeOf w (ID (User p))"
proof (cases "Bot (User p)")
  case True
  then show ?thesis by (simp add: presenceUpdate_bot)
next
  case False
  show ?thesis
  proof (cases "Users (data w) (ID (User p))")
    case None
    with assms(2) have "snapshot p = {}" by (simp add: activeOf_def)
    then have "startGames env (Activities p) 0 emptyUser = (0, emptyUser)"
      by (intro startGames_covered) (simp add: snapshot_def)
    with None False assms(1) show ?thesis
      by (simp add: presenceUpdate_free sessionsOf_def activeOf_def emptyUser_def)
  next
    case (Some ud)
    with assms(2) have snap: "snapshot p = dom (ActiveGames ud)" by (simp add: activeOf_def)
    then have "List.find (\<lambda>g. ActiveGames ud g \<noteq> None \<and> g \<notin> snapshot p) keys = None"
      by (auto simp: find_None_iff)
    moreover from snap have "startGames env (Activities p) 0 ud = (0, ud)"
      by (intro startGames_covered) (simp add: snapshot_def)
    ultimately show ?thesis using Some False assms(1)
      by (simp add: presenceUpdate_free sessionsOf_def activeOf_def)
  qed
qed

text \<open>C7 at \<open>u1\<close> playing Go and seen playing Go.\<close>

theorem unchanged_snapshot_idempotent_witness:
  "\<not> mu (data (exBoth :: (string \<rightharpoonup> UserGameData option) world))
   \<and> snapshot exInGo = dom (activeOf (exBoth :: (string \<rightharpoonup> UserGameData option) world) (ID (User exInGo)))
   \<and> returns (presenceUpdate (exEnv 25000000000) [''Go''] exInGo exBoth)
   \<and> sessionsOf (state_of (presenceUpdate (exEnv 25000000000) [''Go''] exInGo exBoth)) (ID (User exInGo))
       = sessionsOf (exBoth :: (string \<rightharpoonup> UserGameData option) world) (ID (User exInGo))
   \<and> activeOf (state_of (presenceUpdate (exEnv 25000000000) [''Go''] exInGo exBoth)) (ID (User exInGo))
       = activeOf (exBoth :: (string \<rightharpoonup> UserGameData option) world) (ID (User exInGo))"
proof -
  have h1: "\<not> mu (data (exBoth :: (string \<rightharpoonup> UserGameData option) world))"
    by (simp add: exBoth_def)
  have h2: "snapshot exInGo = dom (activeOf (exBoth :: (string \<rightharpoonup> UserGameData option) world) (ID (User exInGo)))"
    by (simp add: snapshot_def exInGo_def exBoth_def activeOf_def exUser_def)
  from unchanged_snapshot_idempotent [OF h1 h2, of "exEnv 25000000000" "[''Go'']"] h1 h2
  show ?thesis by blast
qed



text \<open>
  C8. Claimed: with no file \<open>load\<close> returns an empty store and no error, and with a file
  whose contents are not valid serialized data it returns the format error, without a
  crash and without a partly loaded store. The file \<open>exNullFile\<close> is the serialization
  of no store, yet the decoder accepts it and hands a nil pointer for \<open>u1\<close> to the
  loop, which dereferences it: \<open>load\<close> panics, inside \<^verbatim>\<open>init\<close>. When the loop reaches
  \<open>u0\<close> first, the store the panic leaves holds \<open>u0\<close>.
\<close>

theorem load_null_user_panics:
  "load exNullEnv [''u0'', ''u1''] \<lparr>data = initData, disk = File exNullFile\<rparr>
     = Panicked \<lparr>data = \<lparr>Users = [''u0'' \<mapsto> emptyUser], mu = False\<rparr>,
                 disk = File exNullFile\<rparr>
   \<and> load exNullEnv [''u1'', ''u0''] \<lparr>data = initData, disk = File exNullFile\<rparr>
     = Panicked \<lparr>data = initData, disk = File exNullFile\<rparr>"
  by (simp add: load_def Lock_def Unlock_def initData_def exNullEnv_def setUser_def
      emptyUser_def)

text \<open>
  C10. If the contents of the file do not unmarshal, \<open>load\<close> returns the error and the
  process state, the store with it, is what it was before the call.
\<close>

theorem failed_load_atomic:
  assumes "\<not> mu (data w)"
    and "disk w = File b"
    and "Unmarshal env b = Inl e"
  shows "load env keys w = Returned (Some (ErrUnmarshaling e)) w"
  using assms by (simp add: load_def Lock_free Unlock_Lock)

text \<open>C10 at a store that holds sessions and an open timer of \<open>u1\<close>.\<close>

theorem failed_load_atomic_witness:
  "\<not> mu (data exBothCorrupt)
   \<and> disk exBothCorrupt = File ''not json''
   \<and> Unmarshal exBadEnv ''not json'' = Inl ''unexpected end of JSON input''
   \<and> load exBadEnv [''u1''] exBothCorrupt
       = Returned (Some (ErrUnmarshaling ''unexpected end of JSON input'')) exBothCorrupt"
proof -
  have h1: "\<not> mu (data exBothCorrupt)" by (simp add: exBothCorrupt_def exBoth_def)
  have h2: "disk exBothCorrupt = File ''not json''" by (simp add: exBothCorrupt_def)
  have h3: "Unmarshal exBadEnv ''not json'' = Inl ''unexpected end of JSON input''"
    by (simp add: exBadEnv_def)
  from failed_load_atomic [OF h1 h2 h3, of "[''u1'']"] h1 h2 h3
  show ?thesis by blast
qed

text \<open>
  C5. When \<open>save\<close> has succeeded on a store, \<open>load\<close> in a process started afterwards
  returns no error; the loaded store has the users of the saved one, each with the
  same sequence of sessions, and no user has an open timer, whatever was open before.
  Assumed of the JSON package: the bytes it marshals from the copy unmarshal to that
  copy. The loop of \<open>load\<close> is taken to visit every key.
\<close>

theorem load_save_roundtrip:
  assumes free: "\<not> mu (data w)"
    and saved: "save env w = Returned None w1"
    and codec: "\<And>b. Marshal env (tempUsers (data w)) = Inr b
                  \<Longrightarrow> Unmarshal env b = Inr (tempUsers (data w))"
    and keys: "dom (Users (data w)) \<subseteq> set keys"
  shows "\<exists>w2. load env keys \<lparr>data = initData, disk = disk w1\<rparr> = Returned None w2
           \<and> dom (Users (data w2)) = dom (Users (data w))
           \<and> (\<forall>u. sessionsOf w2 u = sessionsOf w u \<and> activeOf w2 u = Map.empty)"
proof -
  let ?w0 = "\<lparr>data = initData, disk = disk w1\<rparr>"
  let ?w0' = "?w0\<lparr>data := (data ?w0)\<lparr>mu := True\<rparr>\<rparr>"
  have tu: "tempUsers (data w\<lparr>mu := True\<rparr>) = tempUsers (data w)"
    by (simp add: tempUsers_def)
  from free saved obtain b where b: "Marshal env (tempUsers (data w)) = Inr b"
    and d: "disk w1 = File b"
    by (auto simp: save_def Lock_free tu split: sum.splits option.splits prod.splits)
  from codec [OF b] have un: "Unmarshal env b = Inr (tempUsers (data w))" .
  from mergeUsers_tempUsers [of "data w" keys ?w0'] obtain w' where
    w': "mergeUsers (tempUsers (data w)) keys ?w0' = Returned () w'"
    and us: "\<forall>u. Users (data w') u =
             (if u \<in> set keys \<and> u \<in> dom (Users (data w))
              then map_option (\<lambda>ud. \<lparr>Sessions = Sessions ud, ActiveGames = Map.empty\<rparr>)
                     (Users (data w) u)
              else Users (data ?w0') u)" by blast
  have ld: "load env keys ?w0 = Returned None (Unlock w')"
    using d un w' by (simp add: load_def Lock_def initData_def)
  have look: "\<And>u. Users (data w') u =
      map_option (\<lambda>ud. \<lparr>Sessions = Sessions ud, ActiveGames = Map.empty\<rparr>) (Users (data w) u)"
  proof -
    fix u
    show "Users (data w') u =
      map_option (\<lambda>ud. \<lparr>Sessions = Sessions ud, ActiveGames = Map.empty\<rparr>) (Users (data w) u)"
    proof (cases "Users (data w) u")
      case None
      with us show ?thesis by (simp add: initData_def domIff)
    next
      case (Some ud)
      with keys have "u \<in> set keys" by auto
      with us Some show ?thesis by (simp add: domIff)
    qed
  qed
  have "dom (Users (data (Unlock w'))) = dom (Users (data w))"
    by (auto simp: look domIff)
  moreover have "\<forall>u. sessionsOf (Unlock w') u = sessionsOf w u \<and> activeOf (Unlock w') u = Map.empty"
    by (auto simp: sessionsOf_def activeOf_def look split: option.splits)
  ultimately show ?thesis using ld by blast
qed

text \<open>C5 at \<open>u1\<close> with two sessions of Chess and an open timer of Go.\<close>

theorem load_save_roundtrip_witness:
  "\<not> mu (data (exBoth :: (string \<rightharpoonup> UserGameData option) world))
   \<and> save (exEnv 0) exBoth = Returned None (exBoth\<lparr>disk := File (tempUsers (data exBoth))\<rparr>)
   \<and> dom (Users (data (exBoth :: (string \<rightharpoonup> UserGameData option) world))) \<subseteq> set [''u1'']
   \<and> activeOf (exBoth :: (string \<rightharpoonup> UserGameData option) world) ''u1'' ''Go'' = Some 20000000000
   \<and> (\<exists>w2. load (exEnv 0) [''u1''] \<lparr>data = initData, disk = disk (exBoth\<lparr>disk := File (tempUsers (data exBoth))\<rparr>)\<rparr>
              = Returned None w2
           \<and> dom (Users (data w2)) = dom (Users (data (exBoth :: (string \<rightharpoonup> UserGameData option) world)))
           \<and> (\<forall>u. sessionsOf w2 u = sessionsOf (exBoth :: (string \<rightharpoonup> UserGameData option) world) u
                  \<and> activeOf w2 u = Map.empty))"
proof -
  have h1: "\<not> mu (data (exBoth :: (string \<rightharpoonup> UserGameData option) world))"
    by (simp add: exBoth_def)
  have h2: "save (exEnv 0) exBoth = Returned None (exBoth\<lparr>disk := File (tempUsers (data exBoth))\<rparr>)"
    by (simp add: save_def Lock_def Unlock_def exEnv_def exBoth_def tempUsers_def)
  have h3: "\<And>b. Marshal (exEnv 0) (tempUsers (data (exBoth :: (string \<rightharpoonup> UserGameData option) world))) = Inr b
                  \<Longrightarrow> Unmarshal (exEnv 0) b = Inr (tempUsers (data (exBoth :: (string \<rightharpoonup> UserGameData option) world)))"
    by (simp add: exEnv_def)
  have h4: "dom (Users (data (exBoth :: (string \<rightharpoonup> UserGameData option) world))) \<subseteq> set [''u1'']"
    by (simp add: exBoth_def)
  have h5: "activeOf (exBoth :: (string \<rightharpoonup> UserGameData option) world) ''u1'' ''Go'' = Some 20000000000"
    by (simp add: activeOf_def exBoth_def)
  note r = load_save_roundtrip [OF h1 h2 h3 h4]
  show ?thesis by (intro conjI h1 h2 h4 h5 r)
qed

end
